theory Spec2Isabelle
  imports Complex_Main "HOL-Library.Sublist" "HOL-Library.Word"
begin

section \<open>Local analysis history (AnalysisContext)\<close>

text \<open>
  The context keeps the list \<open>analysisHistory\<close> (initially empty), a loading flag and
  the last error message. JavaScript numbers are read as reals; a field that may be
  \<open>undefined\<close> or \<open>null\<close> is an option.
\<close>

record emoji_result =
  emoji_sentiment :: string
  emoji_confidence :: real
  has_emojis :: bool

text \<open>The response of the single-message endpoint, as \<open>addAnalysis\<close> reads it.\<close>

record analysis_result =
  r_analysis_id :: "string option"
  r_sentiment :: string
  r_confidence :: real
  r_emotions :: "(string \<times> real) list option"
  r_emoji_analysis :: "emoji_result option"
  r_timestamp :: "string option"

record entry =
  analysis_id :: string
  message :: string
  sentiment :: string
  confidence :: real
  emotions :: "(string \<times> real) list option"
  emoji_analysis :: "emoji_result option"
  timestamp :: string

text \<open>Decimal rendering of a non-negative integer (\<open>Number.prototype.toString\<close>).\<close>

definition digit_char :: "nat \<Rightarrow> char" where
  "digit_char n = ''0123456789'' ! n"

fun decimal :: "nat \<Rightarrow> string" where
  "decimal n =
     (if n < 10 then [digit_char n] else decimal (n div 10) @ [digit_char (n mod 10)])"

declare decimal.simps [simp del]

text \<open>
  \<open>a || b\<close> on a value that is a string or missing: the empty string, \<open>undefined\<close>
  and \<open>null\<close> are falsy.
\<close>

definition or_else :: "string option \<Rightarrow> string \<Rightarrow> string" where
  "or_else v d = (case v of None \<Rightarrow> d | Some s \<Rightarrow> if s = [] then d else s)"

text \<open>
  The entry built by \<open>addAnalysis\<close>; \<open>now\<close> is \<open>Date.now()\<close> and \<open>nowIso\<close> is
  \<open>new Date().toISOString()\<close>, both read from the clock by the caller.
\<close>

definition newEntry :: "string \<Rightarrow> analysis_result \<Rightarrow> nat \<Rightarrow> string \<Rightarrow> entry" where
  "newEntry msg result now nowIso =
     \<lparr> analysis_id = or_else (r_analysis_id result) (decimal now),
       message = msg,
       sentiment = r_sentiment result,
       confidence = r_confidence result,
       emotions = r_emotions result,
       emoji_analysis = r_emoji_analysis result,
       timestamp = or_else (r_timestamp result) nowIso \<rparr>"

text \<open>The state update \<open>prev => ...\<close> that \<open>addAnalysis\<close> passes to \<open>setAnalysisHistory\<close>.\<close>

definition addAnalysis ::
  "string \<Rightarrow> analysis_result \<Rightarrow> nat \<Rightarrow> string \<Rightarrow> entry list \<Rightarrow> entry list" where
  "addAnalysis msg result now nowIso prev =
     (let e = newEntry msg result now nowIso;
          isDuplicate = list_ex (\<lambda>item. analysis_id item = analysis_id e) prev
      in if isDuplicate then prev else take 100 (e # prev))"

text \<open>A sequence of \<open>addAnalysis\<close> calls, applied in order to the initial empty list.\<close>

type_synonym add_call = "string \<times> analysis_result \<times> nat \<times> string"

definition addAnalysisCalls :: "add_call list \<Rightarrow> entry list" where
  "addAnalysisCalls calls =
     foldl (\<lambda>h (msg, result, now, nowIso). addAnalysis msg result now nowIso h) [] calls"

text \<open>The bound and the uniqueness of ids that the list is meant to keep.\<close>

definition history_ok :: "entry list \<Rightarrow> bool" where
  "history_ok h \<longleftrightarrow> length h \<le> 100 \<and> distinct (map analysis_id h)"

text \<open>A thrown error, by constructor, with its \<open>message\<close>.\<close>

datatype js_error = Error (err_message: string) | TypeError (err_message: string)
  | SyntaxError (err_message: string)

record analysis_ctx =
  analysisHistory :: "entry list"
  isLoading :: bool
  error :: "string option"

text \<open>
  \<open>removeAnalysis\<close>: \<open>deleted\<close> is the outcome of awaiting
  \<open>analysisService.deleteAnalysis(analysisId)\<close>, \<open>Inl\<close> when the promise rejects.
  The result is what the call itself returns or throws, with the state after it.
\<close>

definition removeAnalysis ::
  "string \<Rightarrow> js_error + 'a \<Rightarrow> analysis_ctx \<Rightarrow> (js_error + unit) \<times> analysis_ctx" where
  "removeAnalysis analysisId deleted st =
     (case deleted of
        Inr _ \<Rightarrow>
          (Inr (),
           st\<lparr>analysisHistory := filter (\<lambda>a. analysis_id a \<noteq> analysisId) (analysisHistory st)\<rparr>)
      | Inl err \<Rightarrow> (Inl err, st\<lparr>error := Some (err_message err)\<rparr>))"

text \<open>Sample data: three calls, the second repeating the id of the first, the third without an id.\<close>

definition sample_result :: analysis_result where
  "sample_result =
     \<lparr> r_analysis_id = Some ''a1'', r_sentiment = ''positive'', r_confidence = 0.9,
       r_emotions = None, r_emoji_analysis = None, r_timestamp = Some ''2025-01-01T00:00:00Z'' \<rparr>"

definition sample_calls :: "add_call list" where
  "sample_calls =
     [(''hello'', sample_result, 1700, ''t0''),
      (''again'', sample_result, 1701, ''t1''),
      (''third'', sample_result\<lparr>r_analysis_id := None\<rparr>, 1702, ''t2'')]"

section \<open>JavaScript strings and \<open>trim\<close>\<close>

text \<open>
  Where the code classifies characters, a string is its sequence of UTF-16 code units, the
  unit \<open>length\<close> counts. \<open>String.prototype.trim\<close> removes the WhiteSpace and
  LineTerminator code points of ECMAScript from both ends; all of them are single units.
\<close>

type_synonym jsstring = "16 word list"

definition isWhiteSpace :: "16 word \<Rightarrow> bool" where
  "isWhiteSpace c \<longleftrightarrow>
     c = 0x0009 \<or> c = 0x000A \<or> c = 0x000B \<or> c = 0x000C \<or> c = 0x000D \<or> c = 0x0020
     \<or> c = 0x00A0 \<or> c = 0x1680 \<or> (0x2000 \<le> c \<and> c \<le> 0x200A)
     \<or> c = 0x2028 \<or> c = 0x2029 \<or> c = 0x202F \<or> c = 0x205F \<or> c = 0x3000 \<or> c = 0xFEFF"

definition trim :: "jsstring \<Rightarrow> jsstring" where
  "trim s = rev (dropWhile isWhiteSpace (rev (dropWhile isWhiteSpace s)))"

text \<open>An ASCII literal as a JavaScript string.\<close>

definition js :: "string \<Rightarrow> jsstring" where
  "js s = map (\<lambda>c. of_nat (of_char c)) s"

section \<open>Single-message forms (helpers.js, ChatForm, MessageAnalyzer.js)\<close>

definition validateMessage :: "jsstring \<Rightarrow> bool" where
  "validateMessage m \<longleftrightarrow> length (trim m) > 0 \<and> length m \<le> 5000"

text \<open>
  \<open>ChatForm\<close> is the form the web app renders for its \<open>analyze\<close> section. Its textarea has
  no length attribute; the Analyze button is disabled by
  \<open>loading || !message.trim() || message.length > 1000 || isRecording\<close>, and
  \<open>handleAnalyze\<close> returns at once on \<open>!message.trim()\<close>.
\<close>

definition ChatForm_submitDisabled :: "jsstring \<Rightarrow> bool \<Rightarrow> bool \<Rightarrow> bool" where
  "ChatForm_submitDisabled m loading isRecording \<longleftrightarrow>
     loading \<or> trim m = [] \<or> length m > 1000 \<or> isRecording"

definition ChatForm_handleAnalyzeProceeds :: "jsstring \<Rightarrow> bool" where
  "ChatForm_handleAnalyzeProceeds m \<longleftrightarrow> \<not> (trim m = [])"

text \<open>A form takes a message when its button is enabled and its handler does not return early.\<close>

definition ChatForm_accepts :: "jsstring \<Rightarrow> bool \<Rightarrow> bool \<Rightarrow> bool" where
  "ChatForm_accepts m loading isRecording \<longleftrightarrow>
     \<not> ChatForm_submitDisabled m loading isRecording \<and> ChatForm_handleAnalyzeProceeds m"

text \<open>
  \<open>MessageAnalyzer\<close>: the submit button is disabled by \<open>!message.trim() || isAnalyzing\<close>,
  and \<open>handleAnalyze\<close> returns at once on \<open>!message.trim()\<close>. Its textarea carries the
  attribute \<open>maxLength={5000}\<close>; the component's code has no other length test.
\<close>

definition submitDisabled :: "jsstring \<Rightarrow> bool \<Rightarrow> bool" where
  "submitDisabled m isAnalyzing \<longleftrightarrow> trim m = [] \<or> isAnalyzing"

definition handleAnalyzeProceeds :: "jsstring \<Rightarrow> bool" where
  "handleAnalyzeProceeds m \<longleftrightarrow> \<not> (trim m = [])"

definition formAccepts :: "jsstring \<Rightarrow> bool \<Rightarrow> bool" where
  "formAccepts m isAnalyzing \<longleftrightarrow> \<not> submitDisabled m isAnalyzing \<and> handleAnalyzeProceeds m"

text \<open>The condition the request format asks for: some non-whitespace character, at most 5000 units.\<close>

definition withinMessageBound :: "jsstring \<Rightarrow> bool" where
  "withinMessageBound m \<longleftrightarrow> (\<exists>c \<in> set m. \<not> isWhiteSpace c) \<and> length m \<le> 5000"

text \<open>The letter \<open>a\<close>, repeated.\<close>

definition letters :: "nat \<Rightarrow> jsstring" where
  "letters n = replicate n 0x0061"

section \<open>Chat import (ChatImportScreen.js of the mobile app, ChatImport of the web front-end)\<close>

text \<open>
  The request handed to \<open>analysisService.importChat\<close>; a member that is \<open>null\<close> or
  \<open>undefined\<close> is \<open>None\<close>.
\<close>

record import_request =
  req_content :: jsstring
  req_format_type :: "string option"
  req_current_user_name :: "jsstring option"

text \<open>Of the server's answer the screen reads \<open>total_messages_analyzed\<close>; the rest is kept as is.\<close>

record 'a import_response =
  total_messages_analyzed :: "nat option"
  analysis_body :: 'a

record 'a import_screen =
  content :: jsstring
  formatType :: string
  userName :: jsstring
  loading :: bool
  result :: "'a import_response option"

text \<open>What a handler does besides changing its component's state.\<close>

datatype effect = Alert string string | ImportChat import_request | OnImportSuccess

text \<open>\<open>x || undefined\<close> on a string: the empty string gives \<open>undefined\<close>.\<close>

definition or_undefined :: "jsstring \<Rightarrow> jsstring option" where
  "or_undefined s = (if s = [] then None else Some s)"

text \<open>\<open>err.message || 'Import failed'\<close>.\<close>

definition message_or :: "js_error \<Rightarrow> string \<Rightarrow> string" where
  "message_or err d = (if err_message err = [] then d else err_message err)"

text \<open>
  \<open>handleImport\<close>: \<open>server\<close> is the outcome of awaiting \<open>analysisService.importChat\<close> on
  the request. The function returns the state after the handler and the effects it caused,
  in order.
\<close>

definition handleImport ::
  "(import_request \<Rightarrow> js_error + 'a import_response) \<Rightarrow> 'a import_screen
   \<Rightarrow> 'a import_screen \<times> effect list" where
  "handleImport server st =
     (if trim (content st) = [] \<or> length (trim (content st)) < 10
      then (st, [Alert ''Error'' ''Please provide chat content (min 10 characters)''])
      else
        (let req = \<lparr> req_content = trim (content st),
                      req_format_type = Some (formatType st),
                      req_current_user_name = or_undefined (trim (userName st)) \<rparr>
         in case server req of
              Inr data \<Rightarrow>
                (st\<lparr>loading := False, result := Some data\<rparr>,
                 [ImportChat req,
                  Alert ''Success''
                    (''Analyzed ''
                     @ decimal (case total_messages_analyzed data of None \<Rightarrow> 0 | Some n \<Rightarrow> n)
                     @ '' messages!'')])
            | Inl err \<Rightarrow>
                (st\<lparr>loading := False\<rparr>,
                 [ImportChat req, Alert ''Error'' (message_or err ''Import failed'')])))"

text \<open>
  The web form's state and its \<open>handleAnalyze\<close>. The fields are \<open>chatContent\<close>,
  \<open>formatType\<close> (empty for auto-detection), \<open>userName\<close>, \<open>isAnalyzing\<close>, \<open>analysis\<close> and
  \<open>error\<close> of the component; \<open>hasCallback\<close> tells whether \<open>onImportSuccess\<close> was passed.
\<close>

record 'a chat_import =
  ci_chatContent :: jsstring
  ci_formatType :: string
  ci_userName :: jsstring
  ci_isAnalyzing :: bool
  ci_analysis :: "'a option"
  ci_error :: "string option"

definition ChatImport_handleAnalyze ::
  "(import_request \<Rightarrow> js_error + 'a) \<Rightarrow> bool \<Rightarrow> 'a chat_import
   \<Rightarrow> 'a chat_import \<times> effect list" where
  "ChatImport_handleAnalyze server hasCallback st =
     (if trim (ci_chatContent st) = []
      then (st\<lparr>ci_error := Some ''Please provide chat content''\<rparr>, [])
      else
        (let req = \<lparr> req_content = ci_chatContent st,
                      req_format_type =
                        (if ci_formatType st = [] then None else Some (ci_formatType st)),
                      req_current_user_name = or_undefined (trim (ci_userName st)) \<rparr>
         in case server req of
              Inr res \<Rightarrow>
                (st\<lparr>ci_isAnalyzing := False, ci_error := None, ci_analysis := Some res\<rparr>,
                 ImportChat req # (if hasCallback then [OnImportSuccess] else []))
            | Inl err \<Rightarrow>
                (st\<lparr>ci_isAnalyzing := False, ci_analysis := None,
                    ci_error := Some (message_or err ''Failed to analyze chat'')\<rparr>,
                 [ImportChat req])))"

definition issuesImport :: "effect list \<Rightarrow> bool" where
  "issuesImport effs \<longleftrightarrow>
     list_ex (\<lambda>e. case e of ImportChat _ \<Rightarrow> True | Alert _ _ \<Rightarrow> False
                | OnImportSuccess \<Rightarrow> False) effs"

section \<open>Sentiment distribution on the dashboard (DashboardStats.js)\<close>

text \<open>
  The result of a JavaScript division of finite numbers: a finite number, or \<open>NaN\<close> or an
  infinity when the divisor is zero.
\<close>

datatype jsnum = Num real | NaN | PosInf | NegInf

definition js_div :: "real \<Rightarrow> real \<Rightarrow> jsnum" where
  "js_div a b =
     (if b = 0 then (if a = 0 then NaN else if a > 0 then PosInf else NegInf) else Num (a / b))"

fun js_times :: "jsnum \<Rightarrow> real \<Rightarrow> jsnum" where
  "js_times (Num x) k = Num (x * k)"
| "js_times NaN k = NaN"
| "js_times PosInf k = (if k = 0 then NaN else if k > 0 then PosInf else NegInf)"
| "js_times NegInf k = (if k = 0 then NaN else if k > 0 then NegInf else PosInf)"

text \<open>\<open>Object.values(d).reduce((a, b) => a + b, 0)\<close> over the entries of the distribution.\<close>

definition distTotal :: "(string \<times> real) list \<Rightarrow> real" where
  "distTotal distr = foldl (\<lambda>a b. a + b) 0 (map snd distr)"

definition percentage :: "(string \<times> real) list \<Rightarrow> real \<Rightarrow> jsnum" where
  "percentage distr cnt =
     (let total = distTotal distr in if total > 0 then js_times (js_div cnt total) 100 else Num 0)"

text \<open>The bars rendered: one per entry of \<open>stats.sentimentDistribution\<close>, in its order.\<close>

definition sentimentBars :: "(string \<times> real) list \<Rightarrow> (string \<times> real \<times> jsnum) list" where
  "sentimentBars distr = map (\<lambda>(sentiment, cnt). (sentiment, cnt, percentage distr cnt)) distr"

text \<open>Sample screens and a server that answers every request with 42 analysed messages.\<close>

definition sample_short_screen :: "unit import_screen" where
  "sample_short_screen =
     \<lparr> content = js ''  hi there '', formatType = ''whatsapp'', userName = js '''',
       loading = False, result = None \<rparr>"

definition sample_long_screen :: "unit import_screen" where
  "sample_long_screen =
     \<lparr> content = js '' Alice: hello Bob '', formatType = ''generic'', userName = js ''Alice'',
       loading = False, result = None \<rparr>"

definition sample_server :: "import_request \<Rightarrow> js_error + unit import_response" where
  "sample_server req = Inr \<lparr> total_messages_analyzed = Some 42, analysis_body = () \<rparr>"

definition sample_web_import :: "unit import_response chat_import" where
  "sample_web_import =
     \<lparr> ci_chatContent = js ''hi'', ci_formatType = [], ci_userName = [],
       ci_isAnalyzing = False, ci_analysis = None, ci_error = None \<rparr>"

section \<open>HTTP call paths of the web front-end and of the mobile app\<close>

text \<open>
  A parsed JSON body. Numbers are kept to the integers; \<open>undefined\<close> is \<open>None\<close> of
  \<open>json option\<close>. The list of an object stands for the object whose member for a key is
  the first entry with that key.
\<close>

datatype json = JNull | JBool bool | JNum int | JStr string | JArr "json list"
  | JObj "(string \<times> json) list"

fun truthy :: "json \<Rightarrow> bool" where
  "truthy JNull = False"
| "truthy (JBool b) = b"
| "truthy (JNum n) = (n \<noteq> 0)"
| "truthy (JStr s) = (s \<noteq> [])"
| "truthy (JArr xs) = True"
| "truthy (JObj kvs) = True"

text \<open>\<open>a || b\<close>.\<close>

definition js_or :: "json option \<Rightarrow> json option \<Rightarrow> json option" where
  "js_or a b = (case a of None \<Rightarrow> b | Some v \<Rightarrow> if truthy v then Some v else b)"

text \<open>Truthiness of a value that may be \<open>undefined\<close>.\<close>

definition truthy_opt :: "json option \<Rightarrow> bool" where
  "truthy_opt v = (case v of None \<Rightarrow> False | Some w \<Rightarrow> truthy w)"












subsection \<open>The web client (services/base.js)\<close>








subsection \<open>The mobile client (services/api.js of the app)\<close>











subsection \<open>The other call paths of the web front-end\<close>







subsection \<open>What a call raised\<close>









section \<open>The server-side engine, from the specification\<close>

text \<open>
  The chat analysis engine (parser, sentiment scorer, aggregator, red-flag detector) runs on
  the server and is not among the JavaScript sources; the clients above only call it and
  render what it returns. Its parts below follow the specification's wording.
\<close>

subsection \<open>Red flags and the health label\<close>

datatype severity = Low | Medium | High

datatype health = Healthy | Moderate | Concerning

record finding =
  f_type :: string
  f_severity :: severity
  f_description :: string
  f_suggestion :: string

record red_flag_report =
  redFlags :: "finding list"
  warnings :: "finding list"
  totalRedFlags :: nat
  totalWarnings :: nat
  overallHealth :: health

text \<open>
  Modelled from the spec: the health derivation of the red-flag detector (server code, absent
  from the sources). \<open>concerning\<close> iff there are at least two red flags or one of severity
  \<open>high\<close>; \<open>moderate\<close> iff there is any red flag or at least two warnings; else \<open>healthy\<close>.
\<close>

definition deriveHealth :: "finding list \<Rightarrow> finding list \<Rightarrow> health" where
  "deriveHealth flags warns =
     (if length flags \<ge> 2 \<or> list_ex (\<lambda>f. f_severity f = High) flags then Concerning
      else if flags \<noteq> [] \<or> length warns \<ge> 2 then Moderate
      else Healthy)"

text \<open>
  Modelled from the spec: the \<open>redFlags\<close> section of a ChatAnalysis (server code, absent from
  the sources), assembled from the findings and warnings the rules emitted; the totals count
  the two lists and the health label is derived, not stored independently.
\<close>

definition redFlagReport :: "finding list \<Rightarrow> finding list \<Rightarrow> red_flag_report" where
  "redFlagReport flags warns =
     \<lparr> redFlags = flags, warnings = warns,
       totalRedFlags = length flags, totalWarnings = length warns,
       overallHealth = deriveHealth flags warns \<rparr>"

subsection \<open>Per-participant sentiment ratios\<close>

record sentiment_ratios =
  positiveRatio :: real
  neutralRatio :: real
  negativeRatio :: real

text \<open>
  Modelled from the spec: the per-participant sentiment rollup of the aggregator (server code,
  absent from the sources). Ratios are counts over the participant's total of scored
  messages, stored as floats; with a zero denominator they are all 0. \<open>fl\<close> is the rounding
  of the floating-point division to the stored value.
\<close>

definition ratioOf :: "(real \<Rightarrow> real) \<Rightarrow> nat \<Rightarrow> nat \<Rightarrow> real" where
  "ratioOf fl c n = (if n = 0 then 0 else fl (real c / real n))"

definition participantRatios :: "(real \<Rightarrow> real) \<Rightarrow> nat \<Rightarrow> nat \<Rightarrow> nat \<Rightarrow> sentiment_ratios" where
  "participantRatios fl pos neu neg =
     (let participantTotal = pos + neu + neg
      in \<lparr> positiveRatio = ratioOf fl pos participantTotal,
           neutralRatio = ratioOf fl neu participantTotal,
           negativeRatio = ratioOf fl neg participantTotal \<rparr>)"

text \<open>A rounding whose relative error is at most \<open>eps\<close> (for IEEE doubles, \<open>2\<^sup>-\<^sup>5\<^sup>3\<close>).\<close>

definition rounds_within :: "real \<Rightarrow> (real \<Rightarrow> real) \<Rightarrow> bool" where
  "rounds_within eps fl \<longleftrightarrow> (\<forall>x. \<bar>fl x - x\<bar> \<le> eps * \<bar>x\<bar>)"

subsection \<open>Strings of the engine\<close>

text \<open>
  A string of the engine is a sequence of Unicode code points. Trimming and lower-casing
  are written out for the ASCII range, which is what the examples below need.
\<close>

type_synonym ustring = "nat list"

definition cp :: "string \<Rightarrow> ustring" where
  "cp s = map of_char s"

definition isSpace :: "nat \<Rightarrow> bool" where
  "isSpace c \<longleftrightarrow> c = 32 \<or> (9 \<le> c \<and> c \<le> 13)"

definition strip :: "ustring \<Rightarrow> ustring" where
  "strip s = rev (dropWhile isSpace (rev (dropWhile isSpace s)))"

definition lowerChar :: "nat \<Rightarrow> nat" where
  "lowerChar c = (if 65 \<le> c \<and> c \<le> 90 then c + 32 else c)"

definition lower :: "ustring \<Rightarrow> ustring" where
  "lower s = map lowerChar s"

subsection \<open>Single-message scoring\<close>

datatype label = Positive | Negative | Neutral

record emoji_summary =
  ea_label :: label
  ea_confidence :: real
  ea_hasEmojis :: bool
  ea_count :: nat

record classifier_result =
  c_label :: label
  c_confidence :: real
  c_emotionScores :: "(string \<times> real) list"

record sentiment_result =
  s_label :: label
  s_confidence :: real
  s_emotions :: "(string \<times> real) list option"
  s_emojiAnalysis :: "emoji_summary option"

text \<open>
  The tables the specification names without listing them: the filler set, the
  normalisation applied before the filler test, the emoji code points and their polarity.
\<close>

record scorer_tables =
  fillers :: "ustring list"
  normalise :: "ustring \<Rightarrow> ustring"
  isEmoji :: "nat \<Rightarrow> bool"
  polarity :: "nat \<Rightarrow> real"

text \<open>
  Modelled from the spec: the Emoji Analyzer (server code, absent from the sources). The
  polarities of the emojis found are added up; the label follows the sign of the sum, and
  the confidence is \<open>min(1, |sum| / max(3, count))\<close> when emojis are present, else 0 with
  \<open>hasEmojis = false\<close>.
\<close>

definition emojiAnalyze :: "scorer_tables \<Rightarrow> ustring \<Rightarrow> emoji_summary" where
  "emojiAnalyze T body =
     (let found = filter (isEmoji T) body;
          total = sum_list (map (polarity T) found)
      in \<lparr> ea_label = (if total > 0 then Positive else if total < 0 then Negative else Neutral),
           ea_confidence =
             (if found = [] then 0 else min 1 (\<bar>total\<bar> / max 3 (real (length found)))),
           ea_hasEmojis = (found \<noteq> []),
           ea_count = length found \<rparr>)"

text \<open>
  Modelled from the spec: the Sentiment Scorer (server code, absent from the sources), with
  its first step written out: if the normalised text is in the filler set and no emoji is
  present, the result is \<open>neutral\<close> with confidence 0.55 at once. \<open>later\<close> stands for steps
  2 to 9, which give the label and the confidence otherwise. The emotion map is present
  only if a classifier result was.
\<close>

definition Score ::
  "scorer_tables \<Rightarrow> (ustring \<Rightarrow> emoji_summary \<Rightarrow> classifier_result option \<Rightarrow> label \<times> real)
   \<Rightarrow> ustring \<Rightarrow> classifier_result option \<Rightarrow> sentiment_result" where
  "Score T later body hint =
     (let em = emojiAnalyze T body;
          emo = map_option c_emotionScores hint
      in if normalise T body \<in> set (fillers T) \<and> \<not> ea_hasEmojis em
         then \<lparr> s_label = Neutral, s_confidence = 55 / 100, s_emotions = emo,
                s_emojiAnalysis = Some em \<rparr>
         else (case later body em hint of
                 (l, c) \<Rightarrow> \<lparr> s_label = l, s_confidence = c, s_emotions = emo,
                             s_emojiAnalysis = Some em \<rparr>))"

text \<open>
  Modelled from the spec: \<open>AnalyzeMessage\<close> of the engine facade (server code, absent from
  the sources), which calls the Emoji Analyzer and the Sentiment Scorer only, without a
  classifier result.
\<close>

definition AnalyzeMessage ::
  "scorer_tables \<Rightarrow> (ustring \<Rightarrow> emoji_summary \<Rightarrow> classifier_result option \<Rightarrow> label \<times> real)
   \<Rightarrow> ustring \<Rightarrow> sentiment_result" where
  "AnalyzeMessage T later body = Score T later body None"

text \<open>
  Modelled from the spec: tables for the scenario S2, with the four fillers the specification
  gives as examples, normalisation as trimming and lower-casing, and the emoji blocks
  U+2600 to U+27BF and U+1F300 to U+1FAFF, all of polarity 0.
\<close>

definition example_tables :: scorer_tables where
  "example_tables =
     \<lparr> fillers = [cp ''ok'', cp ''yeah'', cp ''hmm'', cp ''lol''],
       normalise = (\<lambda>t. lower (strip t)),
       isEmoji = (\<lambda>c. (0x2600 \<le> c \<and> c \<le> 0x27BF) \<or> (0x1F300 \<le> c \<and> c \<le> 0x1FAFF)),
       polarity = (\<lambda>c. 0) \<rparr>"

section \<open>Properties of the local history\<close>

lemma list_ex_id_iff:
  "list_ex (\<lambda>item. analysis_id item = i) h \<longleftrightarrow> i \<in> analysis_id ` set h"
  by (auto simp: list_ex_iff)

lemma distinct_map_take:
  "distinct (map f xs) \<Longrightarrow> distinct (map f (take n xs))"
  by (simp add: take_map [symmetric])

lemma addAnalysis_keeps_ok:
  assumes "history_ok h"
  shows "history_ok (addAnalysis msg r now nowIso h)"
proof (cases "analysis_id (newEntry msg r now nowIso) \<in> analysis_id ` set h")
  case True
  then show ?thesis
    using assms by (simp add: addAnalysis_def Let_def list_ex_id_iff)
next
  case False
  let ?e = "newEntry msg r now nowIso"
  have "distinct (map analysis_id (?e # h))"
    using False assms by (simp add: history_ok_def)
  then have "distinct (map analysis_id (take 100 (?e # h)))"
    by (rule distinct_map_take)
  then show ?thesis
    using False by (simp add: addAnalysis_def Let_def list_ex_id_iff history_ok_def)
qed

lemma foldl_addAnalysis_ok:
  "history_ok h \<Longrightarrow>
   history_ok (foldl (\<lambda>h (msg, r, now, nowIso). addAnalysis msg r now nowIso h) h calls)"
proof (induction calls arbitrary: h)
  case Nil
  then show ?case by simp
next
  case (Cons c calls)
  obtain msg r now nowIso where c: "c = (msg, r, now, nowIso)"
    by (cases c) auto
  show ?case
    using Cons.IH [OF addAnalysis_keeps_ok [OF Cons.prems, of msg r now nowIso]]
    by (simp add: c)
qed

text \<open>
  C9. Whatever sequence of \<open>addAnalysis\<close> calls is applied to the initial empty history,
  the list has at most 100 entries and their \<open>analysis_id\<close>s are pairwise distinct. In any
  history \<open>h\<close>, a call whose entry's id is already present returns \<open>h\<close> itself (so does, in
  particular, a call with a result whose non-empty \<open>analysis_id\<close> is present), and a call
  whose id is new puts the new entry first, followed by the first 99 old entries.
\<close>

theorem addAnalysis_bounded_distinct_front:
  "length (addAnalysisCalls calls) \<le> 100
   \<and> distinct (map analysis_id (addAnalysisCalls calls))
   \<and> (analysis_id (newEntry msg r now nowIso) \<in> analysis_id ` set h
        \<longrightarrow> addAnalysis msg r now nowIso h = h)
   \<and> (r_analysis_id r = Some i \<and> i \<noteq> [] \<and> i \<in> analysis_id ` set h
        \<longrightarrow> addAnalysis msg r now nowIso h = h)
   \<and> (analysis_id (newEntry msg r now nowIso) \<notin> analysis_id ` set h
        \<longrightarrow> addAnalysis msg r now nowIso h = newEntry msg r now nowIso # take 99 h
          \<and> hd (addAnalysis msg r now nowIso h) = newEntry msg r now nowIso)"
proof -
  have "history_ok []"
    by (simp add: history_ok_def)
  then have "history_ok (addAnalysisCalls calls)"
    unfolding addAnalysisCalls_def by (rule foldl_addAnalysis_ok)
  then have bounded: "length (addAnalysisCalls calls) \<le> 100"
    and uniq: "distinct (map analysis_id (addAnalysisCalls calls))"
    by (simp_all add: history_ok_def)
  have dup: "addAnalysis msg r now nowIso h = h"
    if "analysis_id (newEntry msg r now nowIso) \<in> analysis_id ` set h"
    using that by (simp add: addAnalysis_def Let_def list_ex_id_iff)
  have fresh: "addAnalysis msg r now nowIso h = newEntry msg r now nowIso # take 99 h"
    if "analysis_id (newEntry msg r now nowIso) \<notin> analysis_id ` set h"
    using that by (simp add: addAnalysis_def Let_def list_ex_id_iff take_Cons')
  have given: "analysis_id (newEntry msg r now nowIso) = i"
    if "r_analysis_id r = Some i" and "i \<noteq> []"
    using that by (simp add: newEntry_def or_else_def)
  from bounded uniq dup fresh given show ?thesis
    by auto
qed

theorem addAnalysis_bounded_distinct_front_witness:
  "length (addAnalysisCalls sample_calls) \<le> 100
   \<and> distinct (map analysis_id (addAnalysisCalls sample_calls))
   \<and> map analysis_id (addAnalysisCalls sample_calls) = [''1702'', ''a1'']
   \<and> analysis_id (newEntry ''again'' sample_result 1701 ''t1'')
        \<in> analysis_id ` set (addAnalysisCalls sample_calls)
   \<and> r_analysis_id sample_result = Some ''a1''
   \<and> ''a1'' \<in> analysis_id ` set (addAnalysisCalls sample_calls)
   \<and> addAnalysis ''again'' sample_result 1701 ''t1'' (addAnalysisCalls sample_calls)
        = addAnalysisCalls sample_calls
   \<and> analysis_id (newEntry ''new'' (sample_result\<lparr>r_analysis_id := Some ''b2''\<rparr>) 1703 ''t3'')
        \<notin> analysis_id ` set (addAnalysisCalls sample_calls)
   \<and> hd (addAnalysis ''new'' (sample_result\<lparr>r_analysis_id := Some ''b2''\<rparr>) 1703 ''t3''
           (addAnalysisCalls sample_calls))
        = newEntry ''new'' (sample_result\<lparr>r_analysis_id := Some ''b2''\<rparr>) 1703 ''t3''"
proof -
  have ids: "map analysis_id (addAnalysisCalls sample_calls) = [''1702'', ''a1'']"
    by (simp add: addAnalysisCalls_def sample_calls_def sample_result_def addAnalysis_def
        newEntry_def or_else_def decimal.simps digit_char_def Let_def)
  have img: "analysis_id ` set (addAnalysisCalls sample_calls) = {''1702'', ''a1''}"
    using ids by (metis list.set_map list.simps(15) empty_set)
  have old: "analysis_id (newEntry ''again'' sample_result 1701 ''t1'')
      \<in> analysis_id ` set (addAnalysisCalls sample_calls)"
    by (simp add: img newEntry_def or_else_def sample_result_def)
  have new: "analysis_id (newEntry ''new'' (sample_result\<lparr>r_analysis_id := Some ''b2''\<rparr>) 1703 ''t3'')
      \<notin> analysis_id ` set (addAnalysisCalls sample_calls)"
    by (simp add: img newEntry_def or_else_def sample_result_def)
  have given: "r_analysis_id sample_result = Some ''a1''"
    "''a1'' \<in> analysis_id ` set (addAnalysisCalls sample_calls)"
    by (simp_all add: sample_result_def img)
  show ?thesis
    using addAnalysis_bounded_distinct_front [of sample_calls "''again''" sample_result 1701
        "''t1''" "addAnalysisCalls sample_calls" "''a1''"]
      addAnalysis_bounded_distinct_front [of sample_calls "''new''"
        "sample_result\<lparr>r_analysis_id := Some ''b2''\<rparr>" 1703 "''t3''"
        "addAnalysisCalls sample_calls" "''b2''"]
      ids old new given
    by simp
qed

text \<open>
  C10. When the server delete succeeds, \<open>removeAnalysis\<close> keeps exactly the entries whose
  \<open>analysis_id\<close> differs from \<open>analysisId\<close>, in their old order, and leaves the error
  field alone. When the delete fails, the call rethrows the same error, records its message
  and leaves the history as it was.
\<close>

theorem removeAnalysis_filters_or_keeps:
  "(case removeAnalysis aid (Inr ok) st of
      (res, st') \<Rightarrow>
        res = Inr ()
        \<and> analysisHistory st' = filter (\<lambda>a. analysis_id a \<noteq> aid) (analysisHistory st)
        \<and> set (analysisHistory st') = {a. a \<in> set (analysisHistory st) \<and> analysis_id a \<noteq> aid}
        \<and> subseq (analysisHistory st') (analysisHistory st)
        \<and> error st' = error st)
   \<and> (case removeAnalysis aid (Inl err :: js_error + unit) st of
      (res, st') \<Rightarrow>
        res = Inl err
        \<and> analysisHistory st' = analysisHistory st
        \<and> error st' = Some (err_message err))"
proof -
  have kept: "set (filter (\<lambda>a. analysis_id a \<noteq> aid) (analysisHistory st))
      = {a. a \<in> set (analysisHistory st) \<and> analysis_id a \<noteq> aid}"
    by auto
  have order: "subseq (filter (\<lambda>a. analysis_id a \<noteq> aid) (analysisHistory st)) (analysisHistory st)"
    by (rule subseq_filter_left)
  show ?thesis
    using kept order by (simp add: removeAnalysis_def)
qed

theorem removeAnalysis_filters_or_keeps_witness:
  "map analysis_id
     (analysisHistory (snd (removeAnalysis ''a1'' (Inr ())
        \<lparr>analysisHistory = addAnalysisCalls sample_calls, isLoading = False, error = None\<rparr>)))
     = [''1702'']
   \<and> analysisHistory (snd (removeAnalysis ''a1'' (Inl (Error ''HTTP 500'') :: js_error + unit)
        \<lparr>analysisHistory = addAnalysisCalls sample_calls, isLoading = False, error = None\<rparr>))
     = addAnalysisCalls sample_calls"
proof -
  let ?st = "\<lparr>analysisHistory = addAnalysisCalls sample_calls, isLoading = False, error = None\<rparr>"
  have ids: "map analysis_id (addAnalysisCalls sample_calls) = [''1702'', ''a1'']"
    by (simp add: addAnalysisCalls_def sample_calls_def sample_result_def addAnalysis_def
        newEntry_def or_else_def decimal.simps digit_char_def Let_def)
  have "map analysis_id (filter (\<lambda>a. analysis_id a \<noteq> ''a1'') (addAnalysisCalls sample_calls))
      = filter (\<lambda>i. i \<noteq> ''a1'') (map analysis_id (addAnalysisCalls sample_calls))"
    by (simp add: filter_map comp_def)
  then have gone: "map analysis_id (filter (\<lambda>a. analysis_id a \<noteq> ''a1'') (addAnalysisCalls sample_calls))
      = [''1702'']"
    by (simp add: ids)
  show ?thesis
    using removeAnalysis_filters_or_keeps [where aid = "''a1''" and ok = "()" and st = ?st
        and err = "Error ''HTTP 500''"] gone
    by (simp split: prod.splits)
qed

section \<open>Properties of \<open>trim\<close> and of the single-message form\<close>

lemma dropWhile_all_iff:
  "(\<forall>c \<in> set (dropWhile P s). P c) \<longleftrightarrow> (\<forall>c \<in> set s. P c)"
proof
  assume rest: "\<forall>c \<in> set (dropWhile P s). P c"
  have "dropWhile P s = []"
  proof (cases "dropWhile P s")
    case Nil
    then show ?thesis .
  next
    case (Cons y ys)
    then have "\<not> P y"
      using hd_dropWhile [of P s] by simp
    moreover have "P y"
      using rest Cons by simp
    ultimately show ?thesis by simp
  qed
  then show "\<forall>c \<in> set s. P c"
    by (simp add: dropWhile_eq_Nil_conv)
next
  assume "\<forall>c \<in> set s. P c"
  then show "\<forall>c \<in> set (dropWhile P s). P c"
    by (meson set_dropWhileD)
qed

lemma trim_Nil_iff: "trim s = [] \<longleftrightarrow> (\<forall>c \<in> set s. isWhiteSpace c)"
proof -
  have "trim s = [] \<longleftrightarrow> (\<forall>c \<in> set (rev (dropWhile isWhiteSpace s)). isWhiteSpace c)"
    by (simp add: trim_def dropWhile_eq_Nil_conv)
  also have "\<dots> \<longleftrightarrow> (\<forall>c \<in> set (dropWhile isWhiteSpace s). isWhiteSpace c)"
    by simp
  also have "\<dots> \<longleftrightarrow> (\<forall>c \<in> set s. isWhiteSpace c)"
    by (rule dropWhile_all_iff)
  finally show ?thesis .
qed

text \<open>
  C4, as amended. \<open>validateMessage\<close> holds exactly of the strings with a non-whitespace
  character and at most 5000 code units. The forms do not call it. \<open>ChatForm\<close>, the form the
  web app mounts, takes a message exactly when nothing is loading or recording and the
  message has a non-whitespace character and at most 1000 code units. \<open>MessageAnalyzer\<close>
  takes a message exactly when no analysis is running and the message has a non-whitespace
  character, whatever its length.
\<close>

theorem validateMessage_iff_bound:
  "(validateMessage m \<longleftrightarrow> withinMessageBound m)
   \<and> (ChatForm_accepts m busy recording \<longleftrightarrow>
        \<not> busy \<and> \<not> recording \<and> (\<exists>c \<in> set m. \<not> isWhiteSpace c) \<and> length m \<le> 1000)
   \<and> (formAccepts m analyzing \<longleftrightarrow> \<not> analyzing \<and> (\<exists>c \<in> set m. \<not> isWhiteSpace c))"
proof -
  have nonblank: "trim m \<noteq> [] \<longleftrightarrow> (\<exists>c \<in> set m. \<not> isWhiteSpace c)"
    by (simp add: trim_Nil_iff)
  have v: "validateMessage m \<longleftrightarrow> withinMessageBound m"
    using nonblank by (simp add: validateMessage_def withinMessageBound_def)
  have c: "ChatForm_accepts m busy recording \<longleftrightarrow>
      \<not> busy \<and> \<not> recording \<and> (\<exists>c \<in> set m. \<not> isWhiteSpace c) \<and> length m \<le> 1000"
    using nonblank
    by (auto simp: ChatForm_accepts_def ChatForm_submitDisabled_def
        ChatForm_handleAnalyzeProceeds_def)
  have f: "formAccepts m analyzing \<longleftrightarrow> \<not> analyzing \<and> (\<exists>c \<in> set m. \<not> isWhiteSpace c)"
    using nonblank
    by (auto simp: formAccepts_def submitDisabled_def handleAnalyzeProceeds_def)
  from v c f show ?thesis
    by blast
qed

theorem validateMessage_iff_bound_witness:
  "validateMessage (js ''ok'') \<and> withinMessageBound (js ''ok'')
   \<and> ChatForm_accepts (js ''ok'') False False \<and> formAccepts (js ''ok'') False
   \<and> \<not> validateMessage (js ''  '') \<and> \<not> ChatForm_accepts (js ''  '') False False
   \<and> \<not> formAccepts (js ''  '') False \<and> \<not> ChatForm_accepts (js ''ok'') True False"
proof -
  have ok: "withinMessageBound (js ''ok'')" "\<exists>c \<in> set (js ''ok''). \<not> isWhiteSpace c"
    "length (js ''ok'') \<le> 1000"
    by (simp_all add: withinMessageBound_def js_def isWhiteSpace_def)
  have blank: "\<not> withinMessageBound (js ''  '')" "\<not> (\<exists>c \<in> set (js ''  ''). \<not> isWhiteSpace c)"
    by (simp_all add: withinMessageBound_def js_def isWhiteSpace_def)
  show ?thesis
    using validateMessage_iff_bound [of "js ''ok''" False False False]
      validateMessage_iff_bound [of "js ''  ''" False False False]
      validateMessage_iff_bound [of "js ''ok''" True False False]
      ok blank
    by simp
qed

lemma letters_facts:
  "0 < n \<Longrightarrow> \<exists>c \<in> set (letters n). \<not> isWhiteSpace c" "length (letters n) = n"
  by (simp_all add: letters_def isWhiteSpace_def)

text \<open>
  The claim as first stated fails in both forms. A message of 1001 letters is within the
  claimed bound and passes \<open>validateMessage\<close>, and \<open>ChatForm\<close> refuses it; a message of 5001
  letters is outside the bound and fails \<open>validateMessage\<close>, and \<open>MessageAnalyzer\<close>'s button
  and handler take it.
\<close>

theorem forms_do_not_follow_the_5000_bound:
  "withinMessageBound (letters 1001) \<and> validateMessage (letters 1001)
   \<and> \<not> ChatForm_accepts (letters 1001) False False
   \<and> \<not> withinMessageBound (letters 5001) \<and> \<not> validateMessage (letters 5001)
   \<and> formAccepts (letters 5001) False"
proof -
  have some: "\<exists>c \<in> set (letters 1001). \<not> isWhiteSpace c" "\<exists>c \<in> set (letters 5001). \<not> isWhiteSpace c"
    by (simp_all add: letters_facts(1))
  then have nonblank: "trim (letters 1001) \<noteq> []" "trim (letters 5001) \<noteq> []"
    by (simp_all add: trim_Nil_iff)
  have len: "length (letters 1001) = 1001" "length (letters 5001) = 5001"
    by (simp_all add: letters_facts(2))
  have a: "withinMessageBound (letters 1001)" "\<not> withinMessageBound (letters 5001)"
    using some by (simp_all add: withinMessageBound_def len)
  have b: "validateMessage (letters 1001)" "\<not> validateMessage (letters 5001)"
    using nonblank by (simp_all add: validateMessage_def len)
  have c: "\<not> ChatForm_accepts (letters 1001) False False"
    by (simp add: ChatForm_accepts_def ChatForm_submitDisabled_def len)
  have d: "formAccepts (letters 5001) False"
    using nonblank by (simp add: formAccepts_def submitDisabled_def handleAnalyzeProceeds_def)
  from a b c d show ?thesis
    by simp
qed

section \<open>Properties of the chat import\<close>

text \<open>
  C5, as amended. On the mobile screen, when the trimmed content has fewer than 10 code
  units, \<open>handleImport\<close> only raises the error alert: no \<open>importChat\<close> request is issued,
  whatever the server would answer, and the screen's state, with its result, stays as it
  was; with 10 or more units the request is issued, carrying the trimmed content. The web
  form rejects exactly the content that is blank after trimming, setting its error and
  issuing nothing; any other content is sent as it is.
\<close>

theorem handleImport_rejects_short_content:
  "(length (trim (content st)) < 10 \<longrightarrow>
      handleImport server st
        = (st, [Alert ''Error'' ''Please provide chat content (min 10 characters)''])
      \<and> \<not> issuesImport (snd (handleImport server st))
      \<and> result (fst (handleImport server st)) = result st)
   \<and> (10 \<le> length (trim (content st)) \<longrightarrow>
      issuesImport (snd (handleImport server st))
      \<and> (\<exists>req. hd (snd (handleImport server st)) = ImportChat req
             \<and> req_content req = trim (content st)))
   \<and> (trim (ci_chatContent w) = [] \<longrightarrow>
      ChatImport_handleAnalyze wserver cb w
        = (w\<lparr>ci_error := Some ''Please provide chat content''\<rparr>, []))
   \<and> (trim (ci_chatContent w) \<noteq> [] \<longrightarrow>
      issuesImport (snd (ChatImport_handleAnalyze wserver cb w))
      \<and> (\<exists>req. hd (snd (ChatImport_handleAnalyze wserver cb w)) = ImportChat req
             \<and> req_content req = ci_chatContent w))"
proof -
  have short: "handleImport server st
      = (st, [Alert ''Error'' ''Please provide chat content (min 10 characters)''])"
    if "length (trim (content st)) < 10"
    using that by (simp add: handleImport_def)
  have quiet: "\<not> issuesImport [Alert ''Error'' ''Please provide chat content (min 10 characters)'']"
    by (simp add: issuesImport_def)
  have long: "issuesImport (snd (handleImport server st))
      \<and> (\<exists>req. hd (snd (handleImport server st)) = ImportChat req
             \<and> req_content req = trim (content st))"
    if "10 \<le> length (trim (content st))"
  proof -
    from that have "trim (content st) \<noteq> []" "\<not> length (trim (content st)) < 10"
      by auto
    then show ?thesis
      by (simp add: handleImport_def issuesImport_def Let_def split: sum.splits)
  qed
  have blank: "ChatImport_handleAnalyze wserver cb w
      = (w\<lparr>ci_error := Some ''Please provide chat content''\<rparr>, [])"
    if "trim (ci_chatContent w) = []"
    using that by (simp add: ChatImport_handleAnalyze_def)
  have sent: "issuesImport (snd (ChatImport_handleAnalyze wserver cb w))
      \<and> (\<exists>req. hd (snd (ChatImport_handleAnalyze wserver cb w)) = ImportChat req
             \<and> req_content req = ci_chatContent w)"
    if "trim (ci_chatContent w) \<noteq> []"
    using that
    by (simp add: ChatImport_handleAnalyze_def issuesImport_def Let_def split: sum.splits)
  from short quiet long blank sent show ?thesis
    by simp
qed

theorem handleImport_rejects_short_content_witness:
  "length (trim (content sample_short_screen)) < 10
   \<and> handleImport sample_server sample_short_screen
        = (sample_short_screen,
           [Alert ''Error'' ''Please provide chat content (min 10 characters)''])
   \<and> 10 \<le> length (trim (content sample_long_screen))
   \<and> issuesImport (snd (handleImport sample_server sample_long_screen))
   \<and> trim (ci_chatContent (sample_web_import\<lparr>ci_chatContent := js ''  ''\<rparr>)) = []
   \<and> snd (ChatImport_handleAnalyze sample_server True
             (sample_web_import\<lparr>ci_chatContent := js ''  ''\<rparr>)) = []
   \<and> trim (ci_chatContent sample_web_import) \<noteq> []
   \<and> issuesImport (snd (ChatImport_handleAnalyze sample_server True sample_web_import))"
proof -
  have s: "length (trim (content sample_short_screen)) < 10"
    by (simp add: sample_short_screen_def trim_def js_def isWhiteSpace_def)
  have l: "10 \<le> length (trim (content sample_long_screen))"
    by (simp add: sample_long_screen_def trim_def js_def isWhiteSpace_def)
  have b: "trim (ci_chatContent (sample_web_import\<lparr>ci_chatContent := js ''  ''\<rparr>)) = []"
    by (simp add: trim_def js_def isWhiteSpace_def)
  have n: "trim (ci_chatContent sample_web_import) \<noteq> []"
    by (simp add: sample_web_import_def trim_def js_def isWhiteSpace_def)
  show ?thesis
    using handleImport_rejects_short_content [of sample_short_screen sample_server
        "sample_web_import\<lparr>ci_chatContent := js ''  ''\<rparr>" sample_server True]
      handleImport_rejects_short_content [of sample_long_screen sample_server
        sample_web_import sample_server True] s l b n
    by simp
qed

text \<open>
  The claim as first stated fails in the web form: the content \<open>hi\<close> has 2 code units after
  trimming, and \<open>handleAnalyze\<close> issues the \<open>importChat\<close> request with it.
\<close>

theorem web_import_sends_short_content:
  "length (trim (ci_chatContent sample_web_import)) = 2
   \<and> snd (ChatImport_handleAnalyze sample_server False sample_web_import)
       = [ImportChat \<lparr> req_content = js ''hi'', req_format_type = None,
                        req_current_user_name = None \<rparr>]
   \<and> issuesImport (snd (ChatImport_handleAnalyze sample_server False sample_web_import))"
proof -
  have t: "trim (js ''hi'') = js ''hi''" "trim [] = []" "js ''hi'' \<noteq> []"
    by (simp_all add: trim_def js_def isWhiteSpace_def)
  show ?thesis
    by (simp add: sample_web_import_def ChatImport_handleAnalyze_def sample_server_def
        or_undefined_def issuesImport_def t Let_def)
      (simp add: js_def)
qed

section \<open>Properties of the dashboard's sentiment distribution\<close>

lemma percentage_finite:
  "\<exists>x. percentage distr cnt = Num x"
  by (simp add: percentage_def js_div_def Let_def)

text \<open>
  C7. When the counts of the distribution add up to 0, every bar reports the percentage 0.
  For any distribution, every percentage is a finite number (the division is only reached
  with a positive total), there is one bar per entry, and with a positive total the
  percentage is the count over the total times 100.
\<close>

theorem percentage_zero_when_total_zero:
  "(distTotal distr = 0 \<longrightarrow> (\<forall>(s, c, p) \<in> set (sentimentBars distr). p = Num 0))
   \<and> (\<forall>(s, c, p) \<in> set (sentimentBars distr). p \<noteq> NaN \<and> p \<noteq> PosInf \<and> p \<noteq> NegInf)
   \<and> map fst (sentimentBars distr) = map fst distr
   \<and> (distTotal distr > 0 \<longrightarrow>
        (\<forall>(s, c, p) \<in> set (sentimentBars distr). p = Num (c / distTotal distr * 100)))"
proof -
  have zero: "\<forall>(s, c, p) \<in> set (sentimentBars distr). p = Num 0" if "distTotal distr = 0"
    using that by (auto simp: sentimentBars_def percentage_def)
  have finite: "\<forall>(s, c, p) \<in> set (sentimentBars distr). p \<noteq> NaN \<and> p \<noteq> PosInf \<and> p \<noteq> NegInf"
  proof -
    have "p \<noteq> NaN \<and> p \<noteq> PosInf \<and> p \<noteq> NegInf" if "p = percentage distr c" for p c
      using percentage_finite [of distr c] that by auto
    then show ?thesis
      by (auto simp: sentimentBars_def)
  qed
  have names: "map fst (sentimentBars distr) = map fst distr"
    by (simp add: sentimentBars_def case_prod_beta comp_def)
  have pos: "\<forall>(s, c, p) \<in> set (sentimentBars distr). p = Num (c / distTotal distr * 100)"
    if "distTotal distr > 0"
    using that by (auto simp: sentimentBars_def percentage_def js_div_def)
  from zero finite names pos show ?thesis
    by blast
qed

theorem percentage_zero_when_total_zero_witness:
  "distTotal [(''positive'', 0), (''neutral'', 0), (''negative'', 0)] = 0
   \<and> sentimentBars [(''positive'', 0), (''neutral'', 0), (''negative'', 0)]
       = [(''positive'', 0, Num 0), (''neutral'', 0, Num 0), (''negative'', 0, Num 0)]
   \<and> distTotal [(''positive'', 3), (''negative'', 1)] > 0
   \<and> sentimentBars [(''positive'', 3), (''negative'', 1)]
       = [(''positive'', 3, Num 75), (''negative'', 1, Num 25)]"
proof -
  have z: "distTotal [(''positive'', 0), (''neutral'', 0), (''negative'', 0)] = 0"
    by (simp add: distTotal_def)
  have p: "distTotal [(''positive'', 3), (''negative'', 1)] = 4"
    by (simp add: distTotal_def)
  show ?thesis
    using percentage_zero_when_total_zero [of "[(''positive'', 0), (''neutral'', 0), (''negative'', 0)]"]
      percentage_zero_when_total_zero [of "[(''positive'', 3), (''negative'', 1)]"] z p
    by (simp add: sentimentBars_def)
qed

section \<open>Properties of the HTTP clients\<close>

lemma js_or_truthy: "truthy_opt a \<Longrightarrow> js_or a b = a"
  by (cases a) (simp_all add: js_or_def truthy_opt_def)

lemma js_or_falsy: "\<not> truthy_opt a \<Longrightarrow> js_or a b = b"
  by (cases a) (simp_all add: js_or_def truthy_opt_def)

lemma truthy_opt_js_or: "truthy_opt (js_or a b) \<longleftrightarrow> truthy_opt a \<or> truthy_opt b"
  by (cases "truthy_opt a") (simp_all add: js_or_truthy js_or_falsy)










section \<open>Properties of the engine as specified\<close>

text \<open>
  C1. In every red-flag report the health label is \<open>concerning\<close> exactly when there are at
  least two red flags or some red flag of severity \<open>high\<close>; otherwise it is \<open>moderate\<close>
  exactly when there is a red flag or at least two warnings; otherwise it is \<open>healthy\<close>.
  The label has no fourth value.
\<close>

theorem overallHealth_derived:
  "(overallHealth (redFlagReport flags warns) = Concerning \<longleftrightarrow>
      totalRedFlags (redFlagReport flags warns) \<ge> 2
      \<or> (\<exists>f \<in> set (redFlags (redFlagReport flags warns)). f_severity f = High))
   \<and> (overallHealth (redFlagReport flags warns) = Moderate \<longleftrightarrow>
      overallHealth (redFlagReport flags warns) \<noteq> Concerning
      \<and> (totalRedFlags (redFlagReport flags warns) \<ge> 1
           \<or> totalWarnings (redFlagReport flags warns) \<ge> 2))
   \<and> (overallHealth (redFlagReport flags warns) = Healthy \<longleftrightarrow>
      overallHealth (redFlagReport flags warns) \<noteq> Concerning
      \<and> overallHealth (redFlagReport flags warns) \<noteq> Moderate)
   \<and> overallHealth (redFlagReport flags warns) \<in> {Healthy, Moderate, Concerning}"
proof -
  let ?r = "redFlagReport flags warns"
  have c: "overallHealth ?r = Concerning \<longleftrightarrow>
      totalRedFlags ?r \<ge> 2 \<or> (\<exists>f \<in> set (redFlags ?r). f_severity f = High)"
    by (simp add: redFlagReport_def deriveHealth_def list_ex_iff)
  have m: "overallHealth ?r = Moderate \<longleftrightarrow>
      overallHealth ?r \<noteq> Concerning \<and> (totalRedFlags ?r \<ge> 1 \<or> totalWarnings ?r \<ge> 2)"
    by (cases flags) (simp_all add: redFlagReport_def deriveHealth_def)
  have h: "overallHealth ?r = Healthy \<longleftrightarrow>
      overallHealth ?r \<noteq> Concerning \<and> overallHealth ?r \<noteq> Moderate"
    by (cases "overallHealth ?r") simp_all
  have v: "overallHealth ?r \<in> {Healthy, Moderate, Concerning}"
    by (cases "overallHealth ?r") simp_all
  from c m h v show ?thesis
    by blast
qed

theorem overallHealth_derived_witness:
  "overallHealth (redFlagReport [] []) = Healthy
   \<and> overallHealth (redFlagReport
        [\<lparr>f_type = ''slow_responses'', f_severity = Medium, f_description = [], f_suggestion = []\<rparr>] [])
       = Moderate
   \<and> overallHealth (redFlagReport
        [\<lparr>f_type = ''message_imbalance'', f_severity = High, f_description = [], f_suggestion = []\<rparr>] [])
       = Concerning"
proof -
  let ?m = "\<lparr>f_type = ''slow_responses'', f_severity = Medium, f_description = [], f_suggestion = []\<rparr>"
  let ?h = "\<lparr>f_type = ''message_imbalance'', f_severity = High, f_description = [], f_suggestion = []\<rparr>"
  show ?thesis
    using overallHealth_derived [of "[]" "[]"] overallHealth_derived [of "[?m]" "[]"]
      overallHealth_derived [of "[?h]" "[]"]
    by (simp add: redFlagReport_def)
qed

lemma ratioOf_error:
  assumes "rounds_within eps fl" and "n > 0"
  shows "\<bar>ratioOf fl c n - real c / real n\<bar> \<le> eps * (real c / real n)"
proof -
  have "\<bar>fl x - x\<bar> \<le> eps * \<bar>x\<bar>" for x
    using assms(1) by (simp add: rounds_within_def)
  from this [of "real c / real n"] show ?thesis
    using assms(2) by (simp add: ratioOf_def)
qed

text \<open>
  C2. For a participant with at least one scored message, and a division that rounds with
  relative error at most \<open>eps \<le> 10\<^sup>-\<^sup>6\<close> (as every IEEE format from single precision on
  does), the three stored ratios add up to 1 within \<open>10\<^sup>-\<^sup>6\<close>.
\<close>

theorem ratios_sum_to_one:
  assumes "rounds_within eps fl" and "eps \<le> 1 / 10 ^ 6" and "pos + neu + neg > 0"
  shows "1 - 1 / 10 ^ 6
      \<le> positiveRatio (participantRatios fl pos neu neg)
        + neutralRatio (participantRatios fl pos neu neg)
        + negativeRatio (participantRatios fl pos neu neg)
    \<and> positiveRatio (participantRatios fl pos neu neg)
        + neutralRatio (participantRatios fl pos neu neg)
        + negativeRatio (participantRatios fl pos neu neg)
      \<le> 1 + 1 / 10 ^ 6"
proof -
  let ?n = "pos + neu + neg"
  let ?p = "ratioOf fl pos ?n" and ?u = "ratioOf fl neu ?n" and ?g = "ratioOf fl neg ?n"
  have ep: "\<bar>?p - real pos / real ?n\<bar> \<le> eps * (real pos / real ?n)"
    using assms(1,3) by (rule ratioOf_error)
  have eu: "\<bar>?u - real neu / real ?n\<bar> \<le> eps * (real neu / real ?n)"
    using assms(1,3) by (rule ratioOf_error)
  have eg: "\<bar>?g - real neg / real ?n\<bar> \<le> eps * (real neg / real ?n)"
    using assms(1,3) by (rule ratioOf_error)
  have "real pos + real neu + real neg = real ?n"
    by simp
  then have one: "real pos / real ?n + real neu / real ?n + real neg / real ?n = 1"
    using assms(3) by (metis add_divide_distrib div_self of_nat_0_less_iff less_numeral_extra(3))
  have "\<bar>?p + ?u + ?g - 1\<bar>
      = \<bar>(?p - real pos / real ?n) + (?u - real neu / real ?n) + (?g - real neg / real ?n)\<bar>"
    using one by simp
  also have "\<dots> \<le> eps * (real pos / real ?n) + eps * (real neu / real ?n)
      + eps * (real neg / real ?n)"
    using ep eu eg by linarith
  also have "\<dots> = eps * (real pos / real ?n + real neu / real ?n + real neg / real ?n)"
    by (simp add: algebra_simps)
  also have "\<dots> = eps"
    by (simp only: one mult_1_right)
  finally have "\<bar>?p + ?u + ?g - 1\<bar> \<le> 1 / 10 ^ 6"
    using assms(2) by linarith
  then have bounds: "1 - 1 / 10 ^ 6 \<le> ?p + ?u + ?g \<and> ?p + ?u + ?g \<le> 1 + 1 / 10 ^ 6"
    by linarith
  have sel: "positiveRatio (participantRatios fl pos neu neg) = ?p"
    "neutralRatio (participantRatios fl pos neu neg) = ?u"
    "negativeRatio (participantRatios fl pos neu neg) = ?g"
    by (simp_all add: participantRatios_def Let_def)
  show ?thesis
    unfolding sel using bounds .
qed

theorem ratios_sum_to_one_witness:
  "rounds_within (1 / 10 ^ 8) (\<lambda>x. x + x / 10 ^ 8)
   \<and> (1 / 10 ^ 8 :: real) \<le> 1 / 10 ^ 6 \<and> (2::nat) + 1 + 0 > 0
   \<and> 1 - 1 / 10 ^ 6
      \<le> positiveRatio (participantRatios (\<lambda>x. x + x / 10 ^ 8) 2 1 0)
        + neutralRatio (participantRatios (\<lambda>x. x + x / 10 ^ 8) 2 1 0)
        + negativeRatio (participantRatios (\<lambda>x. x + x / 10 ^ 8) 2 1 0)
   \<and> positiveRatio (participantRatios (\<lambda>x. x + x / 10 ^ 8) 2 1 0)
        + neutralRatio (participantRatios (\<lambda>x. x + x / 10 ^ 8) 2 1 0)
        + negativeRatio (participantRatios (\<lambda>x. x + x / 10 ^ 8) 2 1 0)
      \<le> 1 + 1 / 10 ^ 6"
proof -
  have r: "rounds_within (1 / 10 ^ 8) (\<lambda>x. x + x / 10 ^ 8)"
    by (simp add: rounds_within_def abs_mult)
  have e: "(1 / 10 ^ 8 :: real) \<le> 1 / 10 ^ 6"
    by simp
  have n: "(2::nat) + 1 + 0 > 0"
    by simp
  show ?thesis
    using ratios_sum_to_one [OF r e n] r e n by simp
qed

lemma emojiAnalyze_none:
  "\<not> list_ex (isEmoji T) body \<Longrightarrow>
   emojiAnalyze T body = \<lparr> ea_label = Neutral, ea_confidence = 0, ea_hasEmojis = False, ea_count = 0 \<rparr>"
proof -
  assume "\<not> list_ex (isEmoji T) body"
  then have "filter (isEmoji T) body = []"
    by (simp add: list_ex_iff filter_empty_conv)
  then show ?thesis
    by (simp add: emojiAnalyze_def)
qed

text \<open>
  C3. For a text whose normalised form is in the filler set and which has no emoji,
  \<open>AnalyzeMessage\<close> returns the label \<open>neutral\<close>, the confidence 0.55 and no emotion map
  (and reports \<open>hasEmojis = false\<close>), whatever the later steps would compute. With the
  example tables, \<open>AnalyzeMessage("ok")\<close> is that result.
\<close>

theorem AnalyzeMessage_filler_neutral:
  "(normalise T body \<in> set (fillers T) \<and> \<not> list_ex (isEmoji T) body \<longrightarrow>
      AnalyzeMessage T later body
        = \<lparr> s_label = Neutral, s_confidence = 55 / 100, s_emotions = None,
            s_emojiAnalysis =
              Some \<lparr> ea_label = Neutral, ea_confidence = 0, ea_hasEmojis = False, ea_count = 0 \<rparr> \<rparr>)
   \<and> s_label (AnalyzeMessage example_tables later (cp ''ok'')) = Neutral
   \<and> s_confidence (AnalyzeMessage example_tables later (cp ''ok'')) = 55 / 100
   \<and> s_emotions (AnalyzeMessage example_tables later (cp ''ok'')) = None"
proof -
  have filler: "AnalyzeMessage T later body
        = \<lparr> s_label = Neutral, s_confidence = 55 / 100, s_emotions = None,
            s_emojiAnalysis =
              Some \<lparr> ea_label = Neutral, ea_confidence = 0, ea_hasEmojis = False, ea_count = 0 \<rparr> \<rparr>"
    if "normalise T body \<in> set (fillers T)" and "\<not> list_ex (isEmoji T) body"
      for T body
    using that emojiAnalyze_none [OF that(2)]
    by (simp add: AnalyzeMessage_def Score_def Let_def)
  have n: "normalise example_tables (cp ''ok'') \<in> set (fillers example_tables)"
    by (simp add: example_tables_def lower_def strip_def cp_def isSpace_def lowerChar_def)
  have e: "\<not> list_ex (isEmoji example_tables) (cp ''ok'')"
    by (simp add: example_tables_def cp_def)
  from filler [OF n e] filler show ?thesis
    by simp
qed

theorem AnalyzeMessage_filler_neutral_witness:
  "normalise example_tables (cp '' Yeah '') \<in> set (fillers example_tables)
   \<and> \<not> list_ex (isEmoji example_tables) (cp '' Yeah '')
   \<and> AnalyzeMessage example_tables (\<lambda>t em hint. (Positive, 1)) (cp '' Yeah '')
        = \<lparr> s_label = Neutral, s_confidence = 55 / 100, s_emotions = None,
            s_emojiAnalysis =
              Some \<lparr> ea_label = Neutral, ea_confidence = 0, ea_hasEmojis = False, ea_count = 0 \<rparr> \<rparr>"
proof -
  have n: "normalise example_tables (cp '' Yeah '') \<in> set (fillers example_tables)"
    by (simp add: example_tables_def lower_def strip_def cp_def isSpace_def lowerChar_def)
  have e: "\<not> list_ex (isEmoji example_tables) (cp '' Yeah '')"
    by (simp add: example_tables_def cp_def)
  show ?thesis
    using AnalyzeMessage_filler_neutral [of example_tables "cp '' Yeah ''" "\<lambda>t em hint. (Positive, 1)"]
      n e
    by simp
qed

end
